theory Spec2Isabelle
  imports Main "HOL-Library.Monad_Syntax" "HOL-Library.AList"
begin

chapter \<open>The configuration schema of buildbot-nix\<close>

text \<open>
  A shallow embedding of \<^verbatim>\<open>buildbot_nix/models.py\<close>: the configuration models as records,
  their validation as functions from a raw document to an optional object, the lazy secret
  accessors as functions on an explicit world, and the translation of a post-build step
  into a step of the execution engine.
\<close>

section \<open>Errors, paths and input documents\<close>

text \<open>
  The exceptions of \<^verbatim>\<open>buildbot_nix/models.py\<close> as values: \<^verbatim>\<open>InternalError\<close> is the
  module's own exception class, \<^verbatim>\<open>ValidationError\<close> is what the validation library raises when
  a document does not fit a model (its aggregated report is not modelled), and \<^verbatim>\<open>OSError\<close>
  is what reading a file raises.
\<close>

datatype error = InternalError | ValidationError | OSError

text \<open>
  \<^verbatim>\<open>pathlib.Path\<close>: a path is built from its text. The normalisation \<^verbatim>\<open>Path\<close> applies to
  the text is not modelled: two paths are equal here when their texts are.
\<close>

datatype path = Path string

text \<open>
  A raw input document: the values a JSON document is loaded to. An object is the list of
  its members, read with \<^const>\<open>map_of\<close>; a dictionary holds each key once. A number with a
  fraction or an exponent carries its literal text, since no field of the schema is a float.
\<close>

datatype json =
    JNull
  | JBool bool
  | JInt int
  | JFloat string
  | JStr string
  | JList "json list"
  | JObj "(string \<times> json) list"

section \<open>Field validation\<close>

text \<open>
  A validator returns \<open>None\<close> where the library records a validation error. A field
  annotated \<^verbatim>\<open>str\<close> accepts a string only, a field annotated \<^verbatim>\<open>Path\<close> a string that
  becomes the path. What a field annotated \<^verbatim>\<open>int\<close> or \<^verbatim>\<open>bool\<close> accepts besides a JSON
  integer or boolean (numeric strings, \<^verbatim>\<open>"yes"\<close>, ...) is the library's lax coercion table,
  which is not part of \<^verbatim>\<open>models.py\<close>: the validators that need one take it as the parameter
  \<open>vint\<close> or \<open>vbool\<close>.
\<close>

definition validate_str :: "json \<Rightarrow> string option" where
  "validate_str j = (case j of JStr s \<Rightarrow> Some s | _ \<Rightarrow> None)"

definition validate_Path :: "json \<Rightarrow> path option" where
  "validate_Path j = (case j of JStr s \<Rightarrow> Some (Path s) | _ \<Rightarrow> None)"

text \<open>\<^verbatim>\<open>T | None\<close>: null is \<^verbatim>\<open>None\<close>, anything else must be a \<^verbatim>\<open>T\<close>.\<close>

definition nullable :: "(json \<Rightarrow> 'a option) \<Rightarrow> json \<Rightarrow> 'a option option" where
  "nullable v j = (case j of JNull \<Rightarrow> Some None | _ \<Rightarrow> map_option Some (v j))"

text \<open>\<^verbatim>\<open>list[T]\<close> and \<^verbatim>\<open>dict[str, T]\<close>: every element must be a \<^verbatim>\<open>T\<close>.\<close>

definition list_of :: "(json \<Rightarrow> 'a option) \<Rightarrow> json \<Rightarrow> 'a list option" where
  "list_of v j = (case j of JList xs \<Rightarrow> those (map v xs) | _ \<Rightarrow> None)"

definition dict_of :: "(json \<Rightarrow> 'a option) \<Rightarrow> json \<Rightarrow> (string \<times> 'a) list option" where
  "dict_of v j =
     (case j of
        JObj kv \<Rightarrow> those (map (\<lambda>(k, x). map_option (Pair k) (v x)) kv)
      | _ \<Rightarrow> None)"

text \<open>The input of a model is an object; members no field names are ignored.\<close>

definition members :: "json \<Rightarrow> (string \<times> json) list option" where
  "members j = (case j of JObj kv \<Rightarrow> Some kv | _ \<Rightarrow> None)"

text \<open>A field without a default must be present, also when its type admits \<^verbatim>\<open>None\<close>.\<close>

definition required :: "(string \<times> json) list \<Rightarrow> string \<Rightarrow> (json \<Rightarrow> 'a option) \<Rightarrow> 'a option" where
  "required kv k v = (case map_of kv k of None \<Rightarrow> None | Some x \<Rightarrow> v x)"

text \<open>\<^verbatim>\<open>Field(default=d)\<close>: an omitted member takes the default, a present one is validated.\<close>

definition with_default ::
  "(string \<times> json) list \<Rightarrow> string \<Rightarrow> (json \<Rightarrow> 'a option) \<Rightarrow> 'a \<Rightarrow> 'a option" where
  "with_default kv k v d = (case map_of kv k of None \<Rightarrow> Some d | Some x \<Rightarrow> v x)"

text \<open>
  \<^verbatim>\<open>Field(alias=a)\<close> under \<^verbatim>\<open>populate_by_name=True\<close>: the member is looked up under the
  alias first and under the field's own name when the alias is absent.
\<close>

definition required_by_alias ::
  "(string \<times> json) list \<Rightarrow> string \<Rightarrow> string \<Rightarrow> (json \<Rightarrow> 'a option) \<Rightarrow> 'a option" where
  "required_by_alias kv alias k v =
     (case map_of kv alias of
        Some x \<Rightarrow> v x
      | None \<Rightarrow> (case map_of kv k of None \<Rightarrow> None | Some x \<Rightarrow> v x))"

section \<open>Interpolation values and post-build steps\<close>

text \<open>
  \<^verbatim>\<open>
  class Interpolate(BaseModel):
      model_config = ConfigDict(populate_by_name=True)
      nix_type: str = Field(alias="_type")
      value: str
  \<close>
\<close>

record Interpolate =
  Interpolate_nix_type :: string
  Interpolate_value :: string

definition validate_Interpolate :: "json \<Rightarrow> Interpolate option" where
  "validate_Interpolate j = do {
     kv \<leftarrow> members j;
     t \<leftarrow> required_by_alias kv ''_type'' ''nix_type'' validate_str;
     v \<leftarrow> required kv ''value'' validate_str;
     Some \<lparr>Interpolate_nix_type = t, Interpolate_value = v\<rparr>
   }"

text \<open>
  \<^verbatim>\<open>model_dump(by_alias=...)\<close> of an \<^verbatim>\<open>Interpolate\<close>: the fields in declaration order, the
  first under its alias when \<^verbatim>\<open>by_alias\<close> is set and under its own name otherwise.
\<close>

definition Interpolate_model_dump :: "bool \<Rightarrow> Interpolate \<Rightarrow> json" where
  "Interpolate_model_dump by_alias self =
     JObj [(if by_alias then ''_type'' else ''nix_type'', JStr (Interpolate_nix_type self)),
           (''value'', JStr (Interpolate_value self))]"

text \<open>The union \<^verbatim>\<open>str | Interpolate\<close> of a step's arguments and bindings.\<close>

datatype str_or_Interpolate = Literal string | Deferred Interpolate

definition validate_str_or_Interpolate :: "json \<Rightarrow> str_or_Interpolate option" where
  "validate_str_or_Interpolate j =
     (case validate_str j of
        Some s \<Rightarrow> Some (Literal s)
      | None \<Rightarrow> map_option Deferred (validate_Interpolate j))"

text \<open>
  \<^verbatim>\<open>
  class PostBuildStep(BaseModel):
      name: str
      environment: dict[str, str | Interpolate]
      command: list[str | Interpolate]
  \<close>
\<close>

record PostBuildStep =
  PostBuildStep_name :: string
  PostBuildStep_environment :: "(string \<times> str_or_Interpolate) list"
  PostBuildStep_command :: "str_or_Interpolate list"

definition validate_PostBuildStep :: "json \<Rightarrow> PostBuildStep option" where
  "validate_PostBuildStep j = do {
     kv \<leftarrow> members j;
     n \<leftarrow> required kv ''name'' validate_str;
     e \<leftarrow> required kv ''environment'' (dict_of validate_str_or_Interpolate);
     c \<leftarrow> required kv ''command'' (list_of validate_str_or_Interpolate);
     Some \<lparr>PostBuildStep_name = n, PostBuildStep_environment = e, PostBuildStep_command = c\<rparr>
   }"

text \<open>
  The execution engine's values: an argument of a step is a plain string or the engine's
  \<^verbatim>\<open>util.Interpolate(expr)\<close>, and \<^verbatim>\<open>steps.ShellCommand\<close> keeps the name, the environment
  and the command it is built with.
\<close>

datatype renderable = Str string | util_Interpolate string

record ShellCommand =
  ShellCommand_name :: string
  ShellCommand_env :: "(string \<times> renderable) list"
  ShellCommand_command :: "renderable list"

text \<open>
  \<^verbatim>\<open>
  def maybe_interpolate(value: str | Interpolate) -> str | util.Interpolate:
      if isinstance(value, str):
          return value
      return util.Interpolate(value.value)
  \<close>
\<close>

fun maybe_interpolate :: "str_or_Interpolate \<Rightarrow> renderable" where
  "maybe_interpolate (Literal s) = Str s"
| "maybe_interpolate (Deferred i) = util_Interpolate (Interpolate_value i)"

text \<open>
  \<^verbatim>\<open>
  return steps.ShellCommand(
      name=self.name,
      env={k: maybe_interpolate(k) for k in self.environment},
      command=[maybe_interpolate(x) for x in self.command],
  )
  \<close>
  Iterating a dictionary yields its keys, so \<open>maybe_interpolate\<close> is applied to the
  variable's name, which is a string.
\<close>

definition PostBuildStep_to_buildstep :: "PostBuildStep \<Rightarrow> ShellCommand" where
  "PostBuildStep_to_buildstep self =
     \<lparr>ShellCommand_name = PostBuildStep_name self,
      ShellCommand_env =
        map (\<lambda>k. (k, maybe_interpolate (Literal k))) (map fst (PostBuildStep_environment self)),
      ShellCommand_command = map maybe_interpolate (PostBuildStep_command self)\<rparr>"

section \<open>Secrets and the file system\<close>

text \<open>
  What the module does to the world is reading secret files. The world is the secret each
  file holds and the log of the reads made so far, in order.
\<close>

record world =
  secret_files :: "path \<Rightarrow> string option"
  reads :: "path list"

text \<open>
  Modelled from the spec: \<^verbatim>\<open>read_secret_file\<close> is imported from \<^verbatim>\<open>buildbot_nix/secrets.py\<close>,
  which is not among the sources. The spec gives its contract: given a path, it returns the
  file's contents as a single trimmed secret string; one call is one fresh read, with no
  caching and no mutation of the file; an I/O error is propagated to the caller.
  \<^const>\<open>secret_files\<close> gives the trimmed contents, and \<open>None\<close> where the read fails.
\<close>

definition read_secret_file :: "path \<Rightarrow> world \<Rightarrow> (error + string) \<times> world" where
  "read_secret_file p w =
     ((case secret_files w p of None \<Rightarrow> Inl OSError | Some s \<Rightarrow> Inr s),
      w\<lparr>reads := reads w @ [p]\<rparr>)"

text \<open>
  \<^verbatim>\<open>Model.model_validate(document)\<close>: the fields are validated and \<^verbatim>\<open>ValidationError\<close> is
  raised where validation fails. The models declare typed fields and properties only (no
  validator, no initialiser), so constructing one runs nothing of \<^verbatim>\<open>models.py\<close>.
\<close>

definition model_validate :: "(json \<Rightarrow> 'a option) \<Rightarrow> json \<Rightarrow> world \<Rightarrow> (error + 'a) \<times> world" where
  "model_validate v j w = ((case v j of None \<Rightarrow> Inl ValidationError | Some c \<Rightarrow> Inr c), w)"

text \<open>The engine's \<^verbatim>\<open>util.Secret(ref)\<close>: a handle that keeps the reference it is built with.\<close>

datatype secret = util_Secret "path option"

section \<open>Cachix\<close>

text \<open>
  \<^verbatim>\<open>
  class CachixConfig(BaseModel):
      name: str
      signing_key_file: Path | None
      auth_token_file: Path | None
  \<close>
\<close>

record CachixConfig =
  CachixConfig_name :: string
  CachixConfig_signing_key_file :: "path option"
  CachixConfig_auth_token_file :: "path option"

definition validate_CachixConfig :: "json \<Rightarrow> CachixConfig option" where
  "validate_CachixConfig j = do {
     kv \<leftarrow> members j;
     n \<leftarrow> required kv ''name'' validate_str;
     s \<leftarrow> required kv ''signing_key_file'' (nullable validate_Path);
     a \<leftarrow> required kv ''auth_token_file'' (nullable validate_Path);
     Some \<lparr>CachixConfig_name = n, CachixConfig_signing_key_file = s,
            CachixConfig_auth_token_file = a\<rparr>
   }"

text \<open>
  \<^verbatim>\<open>
  @property
  def signing_key(self) -> str:
      if self.signing_key_file is None:
          raise InternalError
      return read_secret_file(self.signing_key_file)
  \<close>
  and \<^verbatim>\<open>auth_token\<close> likewise on \<^verbatim>\<open>auth_token_file\<close>.
\<close>

definition CachixConfig_signing_key :: "CachixConfig \<Rightarrow> world \<Rightarrow> (error + string) \<times> world" where
  "CachixConfig_signing_key self w =
     (case CachixConfig_signing_key_file self of
        None \<Rightarrow> (Inl InternalError, w)
      | Some p \<Rightarrow> read_secret_file p w)"

definition CachixConfig_auth_token :: "CachixConfig \<Rightarrow> world \<Rightarrow> (error + string) \<times> world" where
  "CachixConfig_auth_token self w =
     (case CachixConfig_auth_token_file self of
        None \<Rightarrow> (Inl InternalError, w)
      | Some p \<Rightarrow> read_secret_file p w)"

text \<open>
  \<^verbatim>\<open>
  @property
  def environment(self) -> dict[str, str]:
      environment = {}
      environment["CACHIX_SIGNING_KEY"] = util.Secret(self.signing_key_file)
      environment["CACHIX_AUTH_TOKEN"] = util.Secret(self.auth_token_file)
      return environment
  \<close>
  The dictionary is the list of its items in insertion order.
\<close>

definition CachixConfig_environment :: "CachixConfig \<Rightarrow> world \<Rightarrow> (string \<times> secret) list \<times> world" where
  "CachixConfig_environment self w =
     (AList.update ''CACHIX_AUTH_TOKEN'' (util_Secret (CachixConfig_auth_token_file self))
        (AList.update ''CACHIX_SIGNING_KEY'' (util_Secret (CachixConfig_signing_key_file self)) []),
      w)"

section \<open>Gitea\<close>

text \<open>
  \<^verbatim>\<open>
  class GiteaConfig(BaseModel):
      instance_url: str
      topic: str | None
      token_file: Path = Field(default=Path("gitea-token"))
      webhook_secret_file: Path = Field(default=Path("gitea-webhook-secret"))
      project_cache_file: Path = Field(default=Path("gitea-project-cache.json"))
      oauth_id: str | None
      oauth_secret_file: Path | None
  \<close>
\<close>

record GiteaConfig =
  GiteaConfig_instance_url :: string
  GiteaConfig_topic :: "string option"
  GiteaConfig_token_file :: path
  GiteaConfig_webhook_secret_file :: path
  GiteaConfig_project_cache_file :: path
  GiteaConfig_oauth_id :: "string option"
  GiteaConfig_oauth_secret_file :: "path option"

definition validate_GiteaConfig :: "json \<Rightarrow> GiteaConfig option" where
  "validate_GiteaConfig j = do {
     kv \<leftarrow> members j;
     u \<leftarrow> required kv ''instance_url'' validate_str;
     t \<leftarrow> required kv ''topic'' (nullable validate_str);
     tf \<leftarrow> with_default kv ''token_file'' validate_Path (Path ''gitea-token'');
     wf \<leftarrow> with_default kv ''webhook_secret_file'' validate_Path (Path ''gitea-webhook-secret'');
     pf \<leftarrow> with_default kv ''project_cache_file'' validate_Path (Path ''gitea-project-cache.json'');
     oi \<leftarrow> required kv ''oauth_id'' (nullable validate_str);
     os \<leftarrow> required kv ''oauth_secret_file'' (nullable validate_Path);
     Some \<lparr>GiteaConfig_instance_url = u, GiteaConfig_topic = t, GiteaConfig_token_file = tf,
            GiteaConfig_webhook_secret_file = wf, GiteaConfig_project_cache_file = pf,
            GiteaConfig_oauth_id = oi, GiteaConfig_oauth_secret_file = os\<rparr>
   }"

text \<open>
  \<^verbatim>\<open>token\<close> and \<^verbatim>\<open>webhook_secret\<close> return \<^verbatim>\<open>read_secret_file\<close> of their file;
  \<^verbatim>\<open>oauth_secret\<close> raises \<^verbatim>\<open>InternalError\<close> first when \<^verbatim>\<open>oauth_secret_file is None\<close>.
\<close>

definition GiteaConfig_token :: "GiteaConfig \<Rightarrow> world \<Rightarrow> (error + string) \<times> world" where
  "GiteaConfig_token self w = read_secret_file (GiteaConfig_token_file self) w"

definition GiteaConfig_webhook_secret :: "GiteaConfig \<Rightarrow> world \<Rightarrow> (error + string) \<times> world" where
  "GiteaConfig_webhook_secret self w = read_secret_file (GiteaConfig_webhook_secret_file self) w"

definition GiteaConfig_oauth_secret :: "GiteaConfig \<Rightarrow> world \<Rightarrow> (error + string) \<times> world" where
  "GiteaConfig_oauth_secret self w =
     (case GiteaConfig_oauth_secret_file self of
        None \<Rightarrow> (Inl InternalError, w)
      | Some p \<Rightarrow> read_secret_file p w)"

section \<open>GitHub\<close>

text \<open>
  \<^verbatim>\<open>
  class GitHubLegacyConfig(BaseModel):
      token_file: Path
  \<close>
\<close>

record GitHubLegacyConfig =
  GitHubLegacyConfig_token_file :: path

definition validate_GitHubLegacyConfig :: "json \<Rightarrow> GitHubLegacyConfig option" where
  "validate_GitHubLegacyConfig j = do {
     kv \<leftarrow> members j;
     tf \<leftarrow> required kv ''token_file'' validate_Path;
     Some \<lparr>GitHubLegacyConfig_token_file = tf\<rparr>
   }"

definition GitHubLegacyConfig_token :: "GitHubLegacyConfig \<Rightarrow> world \<Rightarrow> (error + string) \<times> world" where
  "GitHubLegacyConfig_token self w = read_secret_file (GitHubLegacyConfig_token_file self) w"

text \<open>
  \<^verbatim>\<open>
  class GitHubAppConfig(BaseModel):
      id: int
      secret_key_file: Path
      installation_token_map_file: Path = Field(
          default=Path("github-app-installation-token-map.json"))
      project_id_map_file: Path = Field(
          default=Path("github-app-project-id-map-name.json"))
      jwt_token_map: Path = Field(default=Path("github-app-jwt-token"))
  \<close>
\<close>

record GitHubAppConfig =
  GitHubAppConfig_id :: int
  GitHubAppConfig_secret_key_file :: path
  GitHubAppConfig_installation_token_map_file :: path
  GitHubAppConfig_project_id_map_file :: path
  GitHubAppConfig_jwt_token_map :: path

definition validate_GitHubAppConfig :: "(json \<Rightarrow> int option) \<Rightarrow> json \<Rightarrow> GitHubAppConfig option" where
  "validate_GitHubAppConfig vint j = do {
     kv \<leftarrow> members j;
     i \<leftarrow> required kv ''id'' vint;
     sf \<leftarrow> required kv ''secret_key_file'' validate_Path;
     im \<leftarrow> with_default kv ''installation_token_map_file'' validate_Path
            (Path ''github-app-installation-token-map.json'');
     pm \<leftarrow> with_default kv ''project_id_map_file'' validate_Path
            (Path ''github-app-project-id-map-name.json'');
     jm \<leftarrow> with_default kv ''jwt_token_map'' validate_Path (Path ''github-app-jwt-token'');
     Some \<lparr>GitHubAppConfig_id = i, GitHubAppConfig_secret_key_file = sf,
            GitHubAppConfig_installation_token_map_file = im,
            GitHubAppConfig_project_id_map_file = pm, GitHubAppConfig_jwt_token_map = jm\<rparr>
   }"

definition GitHubAppConfig_secret_key :: "GitHubAppConfig \<Rightarrow> world \<Rightarrow> (error + string) \<times> world" where
  "GitHubAppConfig_secret_key self w = read_secret_file (GitHubAppConfig_secret_key_file self) w"

text \<open>
  The annotation \<^verbatim>\<open>auth_type: GitHubLegacyConfig | GitHubAppConfig\<close> is an untagged union:
  the library validates the input against both members. Where exactly one member accepts
  it, that member is the result, and where none does, validation fails. Where both accept
  it, the result is the library's rule for unions, which \<^verbatim>\<open>models.py\<close> does not set: the
  first accepting member in declaration order (the legacy one), or, in later releases of the
  library, the member with more fields set (the app one, which sets at least \<^verbatim>\<open>id\<close> and
  \<^verbatim>\<open>secret_key_file\<close> against the single \<^verbatim>\<open>token_file\<close>). The rule is the parameter
  \<open>pol\<close>.
\<close>

datatype github_auth = Legacy GitHubLegacyConfig | App GitHubAppConfig

datatype union_policy = FirstMatch | MostFieldsSet

definition validate_auth_type ::
  "union_policy \<Rightarrow> (json \<Rightarrow> int option) \<Rightarrow> json \<Rightarrow> github_auth option" where
  "validate_auth_type pol vint j =
     (case (validate_GitHubLegacyConfig j, validate_GitHubAppConfig vint j) of
        (None, None) \<Rightarrow> None
      | (Some l, None) \<Rightarrow> Some (Legacy l)
      | (None, Some a) \<Rightarrow> Some (App a)
      | (Some l, Some a) \<Rightarrow>
          (case pol of FirstMatch \<Rightarrow> Some (Legacy l) | MostFieldsSet \<Rightarrow> Some (App a)))"

text \<open>
  \<^verbatim>\<open>
  class GitHubConfig(BaseModel):
      auth_type: GitHubLegacyConfig | GitHubAppConfig
      topic: str | None
      project_cache_file: Path = Field(default=Path("github-project-cache-v1.json"))
      webhook_secret_file: Path = Field(default=Path("github-webhook-secret"))
      oauth_id: str | None
      oauth_secret_file: Path | None
  \<close>
\<close>

record GitHubConfig =
  GitHubConfig_auth_type :: github_auth
  GitHubConfig_topic :: "string option"
  GitHubConfig_project_cache_file :: path
  GitHubConfig_webhook_secret_file :: path
  GitHubConfig_oauth_id :: "string option"
  GitHubConfig_oauth_secret_file :: "path option"

definition validate_GitHubConfig ::
  "union_policy \<Rightarrow> (json \<Rightarrow> int option) \<Rightarrow> json \<Rightarrow> GitHubConfig option" where
  "validate_GitHubConfig pol vint j = do {
     kv \<leftarrow> members j;
     a \<leftarrow> required kv ''auth_type'' (validate_auth_type pol vint);
     t \<leftarrow> required kv ''topic'' (nullable validate_str);
     pf \<leftarrow> with_default kv ''project_cache_file'' validate_Path (Path ''github-project-cache-v1.json'');
     wf \<leftarrow> with_default kv ''webhook_secret_file'' validate_Path (Path ''github-webhook-secret'');
     oi \<leftarrow> required kv ''oauth_id'' (nullable validate_str);
     os \<leftarrow> required kv ''oauth_secret_file'' (nullable validate_Path);
     Some \<lparr>GitHubConfig_auth_type = a, GitHubConfig_topic = t,
            GitHubConfig_project_cache_file = pf, GitHubConfig_webhook_secret_file = wf,
            GitHubConfig_oauth_id = oi, GitHubConfig_oauth_secret_file = os\<rparr>
   }"

definition GitHubConfig_webhook_secret :: "GitHubConfig \<Rightarrow> world \<Rightarrow> (error + string) \<times> world" where
  "GitHubConfig_webhook_secret self w = read_secret_file (GitHubConfig_webhook_secret_file self) w"

definition GitHubConfig_oauth_secret :: "GitHubConfig \<Rightarrow> world \<Rightarrow> (error + string) \<times> world" where
  "GitHubConfig_oauth_secret self w =
     (case GitHubConfig_oauth_secret_file self of
        None \<Rightarrow> (Inl InternalError, w)
      | Some p \<Rightarrow> read_secret_file p w)"

section \<open>The root configuration\<close>

text \<open>
  \<^verbatim>\<open>
  class AuthBackendConfig(str, Enum):
      github = "github"
      gitea = "gitea"
      none = "none"
  \<close>
  A member is validated by its value.
\<close>

datatype AuthBackendConfig =
  AuthBackendConfig_github | AuthBackendConfig_gitea | AuthBackendConfig_none

definition validate_AuthBackendConfig :: "json \<Rightarrow> AuthBackendConfig option" where
  "validate_AuthBackendConfig j =
     (case j of
        JStr s \<Rightarrow>
          (if s = ''github'' then Some AuthBackendConfig_github
           else if s = ''gitea'' then Some AuthBackendConfig_gitea
           else if s = ''none'' then Some AuthBackendConfig_none
           else None)
      | _ \<Rightarrow> None)"

text \<open>
  \<^verbatim>\<open>
  class BuildbotNixConfig(BaseModel):
      db_url: str
      auth_backend: AuthBackendConfig
      build_retries: int
      cachix: CachixConfig | None
      gitea: GiteaConfig | None
      github: GitHubConfig | None
      admins: list[str]
      workers_file: Path
      build_systems: list[str]
      eval_max_memory_size: int
      eval_worker_count: int | None
      nix_workers_secret_file: Path = Field(default=Path("buildbot-nix-workers"))
      domain: str
      webhook_base_url: str
      use_https: bool
      outputs_path: Path | None
      url: str
      post_build_steps: list[PostBuildStep]
      job_report_limit: int | None
  \<close>
\<close>

record BuildbotNixConfig =
  BuildbotNixConfig_db_url :: string
  BuildbotNixConfig_auth_backend :: AuthBackendConfig
  BuildbotNixConfig_build_retries :: int
  BuildbotNixConfig_cachix :: "CachixConfig option"
  BuildbotNixConfig_gitea :: "GiteaConfig option"
  BuildbotNixConfig_github :: "GitHubConfig option"
  BuildbotNixConfig_admins :: "string list"
  BuildbotNixConfig_workers_file :: path
  BuildbotNixConfig_build_systems :: "string list"
  BuildbotNixConfig_eval_max_memory_size :: int
  BuildbotNixConfig_eval_worker_count :: "int option"
  BuildbotNixConfig_nix_workers_secret_file :: path
  BuildbotNixConfig_domain :: string
  BuildbotNixConfig_webhook_base_url :: string
  BuildbotNixConfig_use_https :: bool
  BuildbotNixConfig_outputs_path :: "path option"
  BuildbotNixConfig_url :: string
  BuildbotNixConfig_post_build_steps :: "PostBuildStep list"
  BuildbotNixConfig_job_report_limit :: "int option"

definition validate_BuildbotNixConfig ::
  "union_policy \<Rightarrow> (json \<Rightarrow> int option) \<Rightarrow> (json \<Rightarrow> bool option) \<Rightarrow> json \<Rightarrow>
     BuildbotNixConfig option" where
  "validate_BuildbotNixConfig pol vint vbool j = do {
     kv \<leftarrow> members j;
     db \<leftarrow> required kv ''db_url'' validate_str;
     ab \<leftarrow> required kv ''auth_backend'' validate_AuthBackendConfig;
     br \<leftarrow> required kv ''build_retries'' vint;
     cx \<leftarrow> required kv ''cachix'' (nullable validate_CachixConfig);
     gt \<leftarrow> required kv ''gitea'' (nullable validate_GiteaConfig);
     gh \<leftarrow> required kv ''github'' (nullable (validate_GitHubConfig pol vint));
     ad \<leftarrow> required kv ''admins'' (list_of validate_str);
     wf \<leftarrow> required kv ''workers_file'' validate_Path;
     bs \<leftarrow> required kv ''build_systems'' (list_of validate_str);
     em \<leftarrow> required kv ''eval_max_memory_size'' vint;
     ew \<leftarrow> required kv ''eval_worker_count'' (nullable vint);
     ns \<leftarrow> with_default kv ''nix_workers_secret_file'' validate_Path (Path ''buildbot-nix-workers'');
     dm \<leftarrow> required kv ''domain'' validate_str;
     wb \<leftarrow> required kv ''webhook_base_url'' validate_str;
     uh \<leftarrow> required kv ''use_https'' vbool;
     op \<leftarrow> required kv ''outputs_path'' (nullable validate_Path);
     ur \<leftarrow> required kv ''url'' validate_str;
     ps \<leftarrow> required kv ''post_build_steps'' (list_of validate_PostBuildStep);
     jr \<leftarrow> required kv ''job_report_limit'' (nullable vint);
     Some \<lparr>BuildbotNixConfig_db_url = db, BuildbotNixConfig_auth_backend = ab,
            BuildbotNixConfig_build_retries = br, BuildbotNixConfig_cachix = cx,
            BuildbotNixConfig_gitea = gt, BuildbotNixConfig_github = gh,
            BuildbotNixConfig_admins = ad, BuildbotNixConfig_workers_file = wf,
            BuildbotNixConfig_build_systems = bs, BuildbotNixConfig_eval_max_memory_size = em,
            BuildbotNixConfig_eval_worker_count = ew,
            BuildbotNixConfig_nix_workers_secret_file = ns, BuildbotNixConfig_domain = dm,
            BuildbotNixConfig_webhook_base_url = wb, BuildbotNixConfig_use_https = uh,
            BuildbotNixConfig_outputs_path = op, BuildbotNixConfig_url = ur,
            BuildbotNixConfig_post_build_steps = ps, BuildbotNixConfig_job_report_limit = jr\<rparr>
   }"

definition BuildbotNixConfig_nix_workers_secret ::
  "BuildbotNixConfig \<Rightarrow> world \<Rightarrow> (error + string) \<times> world" where
  "BuildbotNixConfig_nix_workers_secret self w =
     read_secret_file (BuildbotNixConfig_nix_workers_secret_file self) w"

text \<open>
  For concrete documents: every release of the library accepts a JSON integer for \<^verbatim>\<open>int\<close>
  and a JSON boolean for \<^verbatim>\<open>bool\<close>, which is all the examples below use.
\<close>

definition int_of_JInt :: "json \<Rightarrow> int option" where
  "int_of_JInt j = (case j of JInt n \<Rightarrow> Some n | _ \<Rightarrow> None)"

definition bool_of_JBool :: "json \<Rightarrow> bool option" where
  "bool_of_JBool j = (case j of JBool b \<Rightarrow> Some b | _ \<Rightarrow> None)"

section \<open>Shapes of the two authentication variants\<close>

text \<open>
  The spec's words for the members of the union, as predicates on the document: the legacy
  shape is an object with a token-file path; the app shape is an object with an application
  id, a secret-key-file path, and token-map, project-map and JWT-map paths that may be left
  to their defaults.
\<close>

definition has_path :: "(string \<times> json) list \<Rightarrow> string \<Rightarrow> bool" where
  "has_path kv k = (case map_of kv k of Some (JStr s) \<Rightarrow> True | _ \<Rightarrow> False)"

definition path_or_absent :: "(string \<times> json) list \<Rightarrow> string \<Rightarrow> bool" where
  "path_or_absent kv k =
     (case map_of kv k of None \<Rightarrow> True | Some (JStr s) \<Rightarrow> True | _ \<Rightarrow> False)"

definition legacy_shape :: "json \<Rightarrow> bool" where
  "legacy_shape j = (case j of JObj kv \<Rightarrow> has_path kv ''token_file'' | _ \<Rightarrow> False)"

definition app_shape :: "(json \<Rightarrow> int option) \<Rightarrow> json \<Rightarrow> bool" where
  "app_shape vint j =
     (case j of
        JObj kv \<Rightarrow>
          (case map_of kv ''id'' of None \<Rightarrow> False | Some i \<Rightarrow> vint i \<noteq> None) \<and>
          has_path kv ''secret_key_file'' \<and>
          path_or_absent kv ''installation_token_map_file'' \<and>
          path_or_absent kv ''project_id_map_file'' \<and>
          path_or_absent kv ''jwt_token_map''
      | _ \<Rightarrow> False)"

section \<open>Valid documents\<close>















section \<open>Example inputs\<close>

text \<open>A world in which no file has been read.\<close>

definition fresh_world :: world where
  "fresh_world = \<lparr>secret_files = (\<lambda>p. None), reads = []\<rparr>"

text \<open>
  The spec's step \<^verbatim>\<open>command = ["echo", {"_type": "Interpolate", "value": "prop:revision"}]\<close>,
  with an environment that binds one literal and one deferred value.
\<close>

definition revision :: Interpolate where
  "revision = \<lparr>Interpolate_nix_type = ''Interpolate'', Interpolate_value = ''prop:revision''\<rparr>"

definition report_step :: PostBuildStep where
  "report_step =
     \<lparr>PostBuildStep_name = ''report'',
      PostBuildStep_environment = [(''GREETING'', Literal ''hello''), (''REVISION'', Deferred revision)],
      PostBuildStep_command = [Literal ''echo'', Deferred revision]\<rparr>"

text \<open>
  The spec's \<^verbatim>\<open>cachix = {"name": "mycache", "signing_key_file": null,
  "auth_token_file": "/run/secrets/tok"}\<close>, as validated.
\<close>

definition mycache :: CachixConfig where
  "mycache =
     \<lparr>CachixConfig_name = ''mycache'', CachixConfig_signing_key_file = None,
      CachixConfig_auth_token_file = Some (Path ''/run/secrets/tok'')\<rparr>"

text \<open>
  Documents for the forge blocks that leave every defaulted member out, and documents that
  fit one, none or both of the shapes of \<^verbatim>\<open>auth_type\<close>.
\<close>

definition legacy_members :: "(string \<times> json) list" where
  "legacy_members = [(''token_file'', JStr ''github-token'')]"

definition app_members :: "(string \<times> json) list" where
  "app_members = [(''id'', JInt 42), (''secret_key_file'', JStr ''github-app-secret-key'')]"

definition legacy_config :: GitHubLegacyConfig where
  "legacy_config = \<lparr>GitHubLegacyConfig_token_file = Path ''github-token''\<rparr>"

definition app_config :: GitHubAppConfig where
  "app_config =
     \<lparr>GitHubAppConfig_id = 42,
      GitHubAppConfig_secret_key_file = Path ''github-app-secret-key'',
      GitHubAppConfig_installation_token_map_file = Path ''github-app-installation-token-map.json'',
      GitHubAppConfig_project_id_map_file = Path ''github-app-project-id-map-name.json'',
      GitHubAppConfig_jwt_token_map = Path ''github-app-jwt-token''\<rparr>"



text \<open>
  A root document with no forge block and no Cachix block, for a given \<^verbatim>\<open>auth_backend\<close>,
  and the configuration it validates to when the backend is a member of the enumeration.
\<close>

definition root_members :: "string \<Rightarrow> (string \<times> json) list" where
  "root_members backend =
     [(''db_url'', JStr ''postgresql://localhost/buildbot''),
      (''auth_backend'', JStr backend),
      (''build_retries'', JInt 1),
      (''cachix'', JNull),
      (''gitea'', JNull),
      (''github'', JNull),
      (''admins'', JList [JStr ''admin'']),
      (''workers_file'', JStr ''workers.json''),
      (''build_systems'', JList [JStr ''x86_64-linux'']),
      (''eval_max_memory_size'', JInt 4096),
      (''eval_worker_count'', JNull),
      (''domain'', JStr ''buildbot.example''),
      (''webhook_base_url'', JStr ''https://buildbot.example''),
      (''use_https'', JBool True),
      (''outputs_path'', JNull),
      (''url'', JStr ''https://buildbot.example''),
      (''post_build_steps'', JList []),
      (''job_report_limit'', JNull)]"

definition root_document :: "string \<Rightarrow> json" where
  "root_document backend = JObj (root_members backend)"

definition root_config :: "AuthBackendConfig \<Rightarrow> BuildbotNixConfig" where
  "root_config backend =
     \<lparr>BuildbotNixConfig_db_url = ''postgresql://localhost/buildbot'',
      BuildbotNixConfig_auth_backend = backend,
      BuildbotNixConfig_build_retries = 1,
      BuildbotNixConfig_cachix = None,
      BuildbotNixConfig_gitea = None,
      BuildbotNixConfig_github = None,
      BuildbotNixConfig_admins = [''admin''],
      BuildbotNixConfig_workers_file = Path ''workers.json'',
      BuildbotNixConfig_build_systems = [''x86_64-linux''],
      BuildbotNixConfig_eval_max_memory_size = 4096,
      BuildbotNixConfig_eval_worker_count = None,
      BuildbotNixConfig_nix_workers_secret_file = Path ''buildbot-nix-workers'',
      BuildbotNixConfig_domain = ''buildbot.example'',
      BuildbotNixConfig_webhook_base_url = ''https://buildbot.example'',
      BuildbotNixConfig_use_https = True,
      BuildbotNixConfig_outputs_path = None,
      BuildbotNixConfig_url = ''https://buildbot.example'',
      BuildbotNixConfig_post_build_steps = [],
      BuildbotNixConfig_job_report_limit = None\<rparr>"

section \<open>The step translation\<close>

text \<open>
  The command of the translated step is the element-wise translation of the declared
  command, and the name is kept.
\<close>

lemma to_buildstep_command:
  "ShellCommand_command (PostBuildStep_to_buildstep s) =
     map maybe_interpolate (PostBuildStep_command s) \<and>
   ShellCommand_name (PostBuildStep_to_buildstep s) = PostBuildStep_name s"
  by (simp add: PostBuildStep_to_buildstep_def)

lemma map_of_keys:
  "map_of (map (\<lambda>k. (k, f k)) (map fst xs)) k =
     (if k \<in> fst ` set xs then Some (f k) else None)"
  by (induction xs) auto

text \<open>
  The environment of the translated step binds exactly the declared variables, each to its
  own name as a literal, whatever value the step binds it to.
\<close>

lemma to_buildstep_env:
  "map_of (ShellCommand_env (PostBuildStep_to_buildstep s)) k =
     (if k \<in> fst ` set (PostBuildStep_environment s) then Some (Str k) else None)"
  unfolding PostBuildStep_to_buildstep_def
  by (simp only: ShellCommand.simps map_of_keys maybe_interpolate.simps)

text \<open>
  C1. The command list of the translated step is the element-wise translation of the
  declared command: on the spec's step the first argument is the literal \<^verbatim>\<open>echo\<close> and the
  second the engine's interpolation of \<^verbatim>\<open>prop:revision\<close>. The environment is not the
  translation of the bound values: every variable is bound to its own name, and on this
  step \<^verbatim>\<open>GREETING\<close> is bound to \<^verbatim>\<open>"GREETING"\<close> instead of \<^verbatim>\<open>"hello"\<close> and
  \<^verbatim>\<open>REVISION\<close> to \<^verbatim>\<open>"REVISION"\<close> instead of the interpolation of \<^verbatim>\<open>prop:revision\<close>.
\<close>

theorem to_buildstep_binds_names_to_themselves:
  "PostBuildStep_to_buildstep report_step =
     \<lparr>ShellCommand_name = ''report'',
      ShellCommand_env = [(''GREETING'', Str ''GREETING''), (''REVISION'', Str ''REVISION'')],
      ShellCommand_command = [Str ''echo'', util_Interpolate ''prop:revision'']\<rparr>"
  by (simp add: PostBuildStep_to_buildstep_def report_step_def revision_def)

section \<open>Secret accessors\<close>

text \<open>
  C2. An accessor whose optional file reference is unset raises \<^verbatim>\<open>InternalError\<close>, and
  returns no string: \<^verbatim>\<open>CachixConfig.signing_key\<close>, \<^verbatim>\<open>CachixConfig.auth_token\<close>,
  \<^verbatim>\<open>GiteaConfig.oauth_secret\<close> and \<^verbatim>\<open>GitHubConfig.oauth_secret\<close>.
\<close>

theorem unset_reference_raises_InternalError:
  "(CachixConfig_signing_key_file c = None \<longrightarrow>
      CachixConfig_signing_key c w = (Inl InternalError, w)) \<and>
   (CachixConfig_auth_token_file c = None \<longrightarrow>
      CachixConfig_auth_token c w = (Inl InternalError, w)) \<and>
   (GiteaConfig_oauth_secret_file g = None \<longrightarrow>
      GiteaConfig_oauth_secret g w = (Inl InternalError, w)) \<and>
   (GitHubConfig_oauth_secret_file h = None \<longrightarrow>
      GitHubConfig_oauth_secret h w = (Inl InternalError, w))"
  by (simp add: CachixConfig_signing_key_def CachixConfig_auth_token_def
      GiteaConfig_oauth_secret_def GitHubConfig_oauth_secret_def)

theorem unset_reference_raises_InternalError_witness:
  "CachixConfig_signing_key
     \<lparr>CachixConfig_name = ''mycache'', CachixConfig_signing_key_file = None,
      CachixConfig_auth_token_file = None\<rparr> fresh_world = (Inl InternalError, fresh_world) \<and>
   CachixConfig_auth_token
     \<lparr>CachixConfig_name = ''mycache'', CachixConfig_signing_key_file = None,
      CachixConfig_auth_token_file = None\<rparr> fresh_world = (Inl InternalError, fresh_world) \<and>
   GiteaConfig_oauth_secret
     \<lparr>GiteaConfig_instance_url = ''https://gitea.example'', GiteaConfig_topic = None,
      GiteaConfig_token_file = Path ''gitea-token'',
      GiteaConfig_webhook_secret_file = Path ''gitea-webhook-secret'',
      GiteaConfig_project_cache_file = Path ''gitea-project-cache.json'',
      GiteaConfig_oauth_id = None, GiteaConfig_oauth_secret_file = None\<rparr> fresh_world
     = (Inl InternalError, fresh_world) \<and>
   GitHubConfig_oauth_secret
     \<lparr>GitHubConfig_auth_type = Legacy \<lparr>GitHubLegacyConfig_token_file = Path ''github-token''\<rparr>,
      GitHubConfig_topic = None,
      GitHubConfig_project_cache_file = Path ''github-project-cache-v1.json'',
      GitHubConfig_webhook_secret_file = Path ''github-webhook-secret'',
      GitHubConfig_oauth_id = None, GitHubConfig_oauth_secret_file = None\<rparr> fresh_world
     = (Inl InternalError, fresh_world)"
  using unset_reference_raises_InternalError
    [of "\<lparr>CachixConfig_name = ''mycache'', CachixConfig_signing_key_file = None,
          CachixConfig_auth_token_file = None\<rparr>"
        fresh_world
        "\<lparr>GiteaConfig_instance_url = ''https://gitea.example'', GiteaConfig_topic = None,
          GiteaConfig_token_file = Path ''gitea-token'',
          GiteaConfig_webhook_secret_file = Path ''gitea-webhook-secret'',
          GiteaConfig_project_cache_file = Path ''gitea-project-cache.json'',
          GiteaConfig_oauth_id = None, GiteaConfig_oauth_secret_file = None\<rparr>"
        "\<lparr>GitHubConfig_auth_type = Legacy \<lparr>GitHubLegacyConfig_token_file = Path ''github-token''\<rparr>,
          GitHubConfig_topic = None,
          GitHubConfig_project_cache_file = Path ''github-project-cache-v1.json'',
          GitHubConfig_webhook_secret_file = Path ''github-webhook-secret'',
          GitHubConfig_oauth_id = None, GitHubConfig_oauth_secret_file = None\<rparr>"]
  by simp

section \<open>The Cachix environment\<close>

text \<open>
  What \<^verbatim>\<open>environment\<close> computes: it never fails and reads nothing, and it returns exactly
  two entries, each the secret handle built from the file reference as it stands, set or
  unset. The values are handles, not secrets.
\<close>

lemma environment_exposes_both_handles:
  "CachixConfig_environment c w =
     ([(''CACHIX_SIGNING_KEY'', util_Secret (CachixConfig_signing_key_file c)),
       (''CACHIX_AUTH_TOKEN'', util_Secret (CachixConfig_auth_token_file c))], w)"
  by (simp add: CachixConfig_environment_def)

text \<open>
  C3. On the spec's own example the signing-key file is unset and the auth-token file is
  set. The accessor \<^verbatim>\<open>signing_key\<close> raises \<^verbatim>\<open>InternalError\<close> there, but \<^verbatim>\<open>environment\<close>
  neither raises nor leaves the entry out: it returns a \<^verbatim>\<open>CACHIX_SIGNING_KEY\<close> handle built
  from the unset reference beside the auth-token handle. Nothing is read.
\<close>

theorem environment_keeps_unset_signing_key_handle:
  "CachixConfig_signing_key_file mycache = None \<and>
   CachixConfig_auth_token_file mycache = Some (Path ''/run/secrets/tok'') \<and>
   CachixConfig_signing_key mycache fresh_world = (Inl InternalError, fresh_world) \<and>
   CachixConfig_environment mycache fresh_world =
     ([(''CACHIX_SIGNING_KEY'', util_Secret None),
       (''CACHIX_AUTH_TOKEN'', util_Secret (Some (Path ''/run/secrets/tok'')))], fresh_world)"
  by (simp add: CachixConfig_environment_def CachixConfig_signing_key_def mycache_def)

section \<open>Interpolation values on the wire\<close>

text \<open>
  C6. Dumping an \<^verbatim>\<open>Interpolate\<close> by alias and validating the dump gives the value back.
  The dump that is not by alias has no member \<^verbatim>\<open>_type\<close>: the discriminator is under
  \<^verbatim>\<open>nix_type\<close>.
\<close>

theorem Interpolate_roundtrip_by_alias:
  "model_validate validate_Interpolate (Interpolate_model_dump True i) w = (Inr i, w) \<and>
   (\<exists>kv. Interpolate_model_dump False i = JObj kv \<and> map_of kv ''_type'' = None \<and>
         map_of kv ''nix_type'' = Some (JStr (Interpolate_nix_type i)))"
  by (simp add: model_validate_def validate_Interpolate_def Interpolate_model_dump_def
      members_def required_by_alias_def required_def validate_str_def)

text \<open>
  C10. The discriminator is accepted under the wire key \<^verbatim>\<open>_type\<close> and under the field
  name \<^verbatim>\<open>nix_type\<close>: both documents validate to the same \<^verbatim>\<open>Interpolate\<close>.
\<close>

theorem Interpolate_accepts_alias_and_name:
  "model_validate validate_Interpolate (JObj [(''_type'', JStr t), (''value'', JStr v)]) w =
     (Inr \<lparr>Interpolate_nix_type = t, Interpolate_value = v\<rparr>, w) \<and>
   model_validate validate_Interpolate (JObj [(''nix_type'', JStr t), (''value'', JStr v)]) w =
     (Inr \<lparr>Interpolate_nix_type = t, Interpolate_value = v\<rparr>, w)"
  by (simp add: model_validate_def validate_Interpolate_def members_def
      required_by_alias_def required_def validate_str_def)

text \<open>
  Since the field's own name is accepted too, the dump that is not by alias validates back
  to the value as well: what it loses is the wire key, not the value.
\<close>

lemma Interpolate_roundtrip_either_mode:
  "model_validate validate_Interpolate (Interpolate_model_dump by_alias i) w = (Inr i, w)"
  by (simp add: model_validate_def validate_Interpolate_def Interpolate_model_dump_def
      members_def required_by_alias_def required_def validate_str_def)

text \<open>The same with any other members around: the alias adds nothing the name does not give.\<close>

lemma Interpolate_name_for_alias:
  "map_of kv ''_type'' = None \<Longrightarrow> map_of kv ''nix_type'' = Some x \<Longrightarrow>
     validate_Interpolate (JObj ((''_type'', x) # kv)) = validate_Interpolate (JObj kv)"
  by (simp add: validate_Interpolate_def members_def required_by_alias_def required_def)

section \<open>The union of the two GitHub authentication variants\<close>

lemma required_Path_conv: "(required kv k validate_Path = None) = (\<not> has_path kv k)"
  by (auto simp: required_def validate_Path_def has_path_def split: option.splits json.splits)

lemma with_default_Path_conv:
  "(with_default kv k validate_Path d = None) = (\<not> path_or_absent kv k)"
  by (auto simp: with_default_def validate_Path_def path_or_absent_def
      split: option.splits json.splits)

text \<open>Each member of the union accepts exactly the documents of its shape.\<close>

lemma legacy_shape_conv: "legacy_shape j = (validate_GitHubLegacyConfig j \<noteq> None)"
  by (cases j)
     (auto simp: legacy_shape_def validate_GitHubLegacyConfig_def members_def
        bind_eq_None_conv required_Path_conv)

lemma app_shape_conv: "app_shape vint j = (validate_GitHubAppConfig vint j \<noteq> None)"
proof (cases j)
  case (JObj kv)
  have id: "(required kv ''id'' vint = None) =
      (\<not> (case map_of kv ''id'' of None \<Rightarrow> False | Some i \<Rightarrow> vint i \<noteq> None))"
    by (simp add: required_def split: option.splits)
  have eq: "(validate_GitHubAppConfig vint (JObj kv) = None) =
      (required kv ''id'' vint = None \<or>
       required kv ''secret_key_file'' validate_Path = None \<or>
       with_default kv ''installation_token_map_file'' validate_Path
         (Path ''github-app-installation-token-map.json'') = None \<or>
       with_default kv ''project_id_map_file'' validate_Path
         (Path ''github-app-project-id-map-name.json'') = None \<or>
       with_default kv ''jwt_token_map'' validate_Path (Path ''github-app-jwt-token'') = None)"
    unfolding validate_GitHubAppConfig_def members_def
    by (cases "required kv ''id'' vint";
        cases "required kv ''secret_key_file'' validate_Path";
        cases "with_default kv ''installation_token_map_file'' validate_Path
                 (Path ''github-app-installation-token-map.json'')";
        cases "with_default kv ''project_id_map_file'' validate_Path
                 (Path ''github-app-project-id-map-name.json'')";
        cases "with_default kv ''jwt_token_map'' validate_Path (Path ''github-app-jwt-token'')")
       simp_all
  show ?thesis
    unfolding JObj app_shape_def
    by (auto simp add: eq id required_Path_conv with_default_Path_conv)
qed (simp_all add: app_shape_def validate_GitHubAppConfig_def members_def)

text \<open>
  C4. A document of the legacy shape only resolves to the legacy variant, one of the app
  shape only to the app variant, and one of neither shape fails validation. A document of
  both shapes does not fail: it resolves to one fixed variant, the legacy one under the
  first-match rule and the app one under the most-fields-set rule.
\<close>

theorem auth_type_resolved_by_shape:
  "(legacy_shape j \<and> \<not> app_shape vint j \<longrightarrow>
      (\<exists>l. validate_GitHubLegacyConfig j = Some l \<and>
           model_validate (validate_auth_type pol vint) j w = (Inr (Legacy l), w))) \<and>
   (app_shape vint j \<and> \<not> legacy_shape j \<longrightarrow>
      (\<exists>a. validate_GitHubAppConfig vint j = Some a \<and>
           model_validate (validate_auth_type pol vint) j w = (Inr (App a), w))) \<and>
   (\<not> legacy_shape j \<and> \<not> app_shape vint j \<longrightarrow>
      model_validate (validate_auth_type pol vint) j w = (Inl ValidationError, w)) \<and>
   (legacy_shape j \<and> app_shape vint j \<longrightarrow>
      (\<exists>l a. validate_GitHubLegacyConfig j = Some l \<and>
             validate_GitHubAppConfig vint j = Some a \<and>
             model_validate (validate_auth_type pol vint) j w =
               (Inr (case pol of FirstMatch \<Rightarrow> Legacy l | MostFieldsSet \<Rightarrow> App a), w)))"
  unfolding legacy_shape_conv app_shape_conv model_validate_def validate_auth_type_def
  by (cases "validate_GitHubLegacyConfig j"; cases "validate_GitHubAppConfig vint j"; cases pol)
     simp_all

lemma validate_legacy_members:
  "validate_GitHubLegacyConfig (JObj legacy_members) = Some legacy_config"
  "validate_GitHubLegacyConfig (JObj (legacy_members @ app_members)) = Some legacy_config"
  by (simp_all add: validate_GitHubLegacyConfig_def members_def required_def validate_Path_def
      legacy_members_def legacy_config_def)

lemma validate_app_members:
  "validate_GitHubAppConfig int_of_JInt (JObj app_members) = Some app_config"
  "validate_GitHubAppConfig int_of_JInt (JObj (legacy_members @ app_members)) = Some app_config"
  by (simp_all add: validate_GitHubAppConfig_def members_def required_def with_default_def
      validate_Path_def legacy_members_def app_members_def app_config_def int_of_JInt_def)

theorem auth_type_resolved_by_shape_witness:
  "model_validate (validate_auth_type FirstMatch int_of_JInt) (JObj legacy_members) fresh_world =
     (Inr (Legacy legacy_config), fresh_world) \<and>
   model_validate (validate_auth_type FirstMatch int_of_JInt) (JObj app_members) fresh_world =
     (Inr (App app_config), fresh_world) \<and>
   model_validate (validate_auth_type FirstMatch int_of_JInt) (JObj [(''id'', JInt 42)])
       fresh_world =
     (Inl ValidationError, fresh_world) \<and>
   model_validate (validate_auth_type FirstMatch int_of_JInt)
       (JObj (legacy_members @ app_members)) fresh_world =
     (Inr (Legacy legacy_config), fresh_world) \<and>
   model_validate (validate_auth_type MostFieldsSet int_of_JInt)
       (JObj (legacy_members @ app_members)) fresh_world =
     (Inr (App app_config), fresh_world)"
proof -
  have l: "legacy_shape (JObj legacy_members) \<and> \<not> app_shape int_of_JInt (JObj legacy_members)"
    by (simp add: legacy_shape_def app_shape_def has_path_def legacy_members_def)
  have a: "app_shape int_of_JInt (JObj app_members) \<and> \<not> legacy_shape (JObj app_members)"
    by (simp add: legacy_shape_def app_shape_def has_path_def path_or_absent_def app_members_def
        int_of_JInt_def)
  have n: "\<not> legacy_shape (JObj [(''id'', JInt 42)]) \<and>
           \<not> app_shape int_of_JInt (JObj [(''id'', JInt 42)])"
    by (simp add: legacy_shape_def app_shape_def has_path_def)
  have b: "legacy_shape (JObj (legacy_members @ app_members)) \<and>
           app_shape int_of_JInt (JObj (legacy_members @ app_members))"
    by (simp add: legacy_shape_def app_shape_def has_path_def path_or_absent_def app_members_def
        legacy_members_def int_of_JInt_def)
  show ?thesis
    using
      auth_type_resolved_by_shape
        [of "JObj legacy_members" int_of_JInt FirstMatch fresh_world]
      auth_type_resolved_by_shape
        [of "JObj app_members" int_of_JInt FirstMatch fresh_world]
      auth_type_resolved_by_shape
        [of "JObj [(''id'', JInt 42)]" int_of_JInt FirstMatch fresh_world]
      auth_type_resolved_by_shape
        [of "JObj (legacy_members @ app_members)" int_of_JInt FirstMatch fresh_world]
      auth_type_resolved_by_shape
        [of "JObj (legacy_members @ app_members)" int_of_JInt MostFieldsSet fresh_world]
      l a n b
    by (simp add: validate_legacy_members validate_app_members)
qed

section \<open>Validation of the root configuration\<close>

lemma validate_AuthBackendConfig_None:
  "(validate_AuthBackendConfig a = None) =
     (a \<notin> {JStr ''github'', JStr ''gitea'', JStr ''none''})"
  by (cases a) (simp_all add: validate_AuthBackendConfig_def)

text \<open>The example root document validates to the example configuration.\<close>

lemma validate_root_document:
  assumes "\<forall>n. vint (JInt n) = Some n" and "\<forall>b. vbool (JBool b) = Some b"
    and "validate_AuthBackendConfig (JStr s) = Some ab"
  shows "validate_BuildbotNixConfig pol vint vbool (root_document s) = Some (root_config ab)"
  using assms
  by (simp add: validate_BuildbotNixConfig_def root_document_def root_members_def root_config_def
      members_def required_def with_default_def validate_str_def validate_Path_def nullable_def
      list_of_def)

lemma JSON_scalars_accepted:
  "\<forall>n. int_of_JInt (JInt n) = Some n" "\<forall>b. bool_of_JBool (JBool b) = Some b"
  by (simp_all add: int_of_JInt_def bool_of_JBool_def)

text \<open>
  C5. A root document whose \<^verbatim>\<open>auth_backend\<close> member is anything but one of the strings
  \<^verbatim>\<open>github\<close>, \<^verbatim>\<open>gitea\<close> and \<^verbatim>\<open>none\<close> fails validation with \<^verbatim>\<open>ValidationError\<close>, whatever
  its other members; each of the three strings is accepted for the field and gives the
  member of the enumeration of that name.
\<close>

theorem auth_backend_outside_enum_rejected:
  "(map_of kv ''auth_backend'' = Some a \<and>
    a \<notin> {JStr ''github'', JStr ''gitea'', JStr ''none''} \<longrightarrow>
      model_validate (validate_BuildbotNixConfig pol vint vbool) (JObj kv) w =
        (Inl ValidationError, w)) \<and>
   validate_AuthBackendConfig (JStr ''github'') = Some AuthBackendConfig_github \<and>
   validate_AuthBackendConfig (JStr ''gitea'') = Some AuthBackendConfig_gitea \<and>
   validate_AuthBackendConfig (JStr ''none'') = Some AuthBackendConfig_none"
proof -
  have "validate_BuildbotNixConfig pol vint vbool (JObj kv) = None"
    if "map_of kv ''auth_backend'' = Some a"
      and "a \<notin> {JStr ''github'', JStr ''gitea'', JStr ''none''}"
    using that validate_AuthBackendConfig_None [of a]
    by (cases "required kv ''db_url'' validate_str")
       (simp_all add: validate_BuildbotNixConfig_def members_def required_def)
  then show ?thesis
    by (simp add: model_validate_def validate_AuthBackendConfig_def)
qed

theorem auth_backend_outside_enum_rejected_witness:
  "model_validate (validate_BuildbotNixConfig FirstMatch int_of_JInt bool_of_JBool)
       (root_document ''gitlab'') fresh_world =
     (Inl ValidationError, fresh_world) \<and>
   model_validate (validate_BuildbotNixConfig FirstMatch int_of_JInt bool_of_JBool)
       (root_document ''none'') fresh_world =
     (Inr (root_config AuthBackendConfig_none), fresh_world)"
proof -
  have m: "map_of (root_members ''gitlab'') ''auth_backend'' = Some (JStr ''gitlab'')"
    by (simp add: root_members_def)
  have o: "JStr ''gitlab'' \<notin> {JStr ''github'', JStr ''gitea'', JStr ''none''}"
    by simp
  have "validate_AuthBackendConfig (JStr ''none'') = Some AuthBackendConfig_none"
    using auth_backend_outside_enum_rejected by simp
  then have n: "validate_BuildbotNixConfig FirstMatch int_of_JInt bool_of_JBool
      (root_document ''none'') = Some (root_config AuthBackendConfig_none)"
    by (rule validate_root_document [OF JSON_scalars_accepted])
  show ?thesis
    using auth_backend_outside_enum_rejected
      [of "root_members ''gitlab''" "JStr ''gitlab''" FirstMatch int_of_JInt bool_of_JBool
        fresh_world] m o n
    by (simp add: root_document_def model_validate_def)
qed

text \<open>
  C9. Validation of the root does not relate \<^verbatim>\<open>auth_backend\<close> to the forge blocks: the
  example document with \<^verbatim>\<open>auth_backend = "github"\<close> and \<^verbatim>\<open>github = null\<close> validates, to a
  configuration with that combination, and so does the one with \<^verbatim>\<open>auth_backend = "gitea"\<close>
  and \<^verbatim>\<open>gitea = null\<close>. This holds for every coercion table that accepts a JSON integer
  for \<^verbatim>\<open>int\<close> and a JSON boolean for \<^verbatim>\<open>bool\<close>.
\<close>

theorem auth_backend_not_tied_to_forge_block:
  "(\<forall>n. vint (JInt n) = Some n) \<and> (\<forall>b. vbool (JBool b) = Some b) \<longrightarrow>
   map_of (root_members ''github'') ''github'' = Some JNull \<and>
   map_of (root_members ''gitea'') ''gitea'' = Some JNull \<and>
   (\<exists>c. model_validate (validate_BuildbotNixConfig pol vint vbool) (root_document ''github'') w =
          (Inr c, w) \<and>
        BuildbotNixConfig_auth_backend c = AuthBackendConfig_github \<and>
        BuildbotNixConfig_github c = None) \<and>
   (\<exists>c. model_validate (validate_BuildbotNixConfig pol vint vbool) (root_document ''gitea'') w =
          (Inr c, w) \<and>
        BuildbotNixConfig_auth_backend c = AuthBackendConfig_gitea \<and>
        BuildbotNixConfig_gitea c = None)"
proof (intro impI, elim conjE)
  assume v: "\<forall>n. vint (JInt n) = Some n" "\<forall>b. vbool (JBool b) = Some b"
  have gh: "validate_AuthBackendConfig (JStr ''github'') = Some AuthBackendConfig_github"
    and gt: "validate_AuthBackendConfig (JStr ''gitea'') = Some AuthBackendConfig_gitea"
    by (simp_all add: validate_AuthBackendConfig_def)
  have m: "map_of (root_members ''github'') ''github'' = Some JNull"
    "map_of (root_members ''gitea'') ''gitea'' = Some JNull"
    by (simp_all add: root_members_def)
  show "map_of (root_members ''github'') ''github'' = Some JNull \<and>
   map_of (root_members ''gitea'') ''gitea'' = Some JNull \<and>
   (\<exists>c. model_validate (validate_BuildbotNixConfig pol vint vbool) (root_document ''github'') w =
          (Inr c, w) \<and>
        BuildbotNixConfig_auth_backend c = AuthBackendConfig_github \<and>
        BuildbotNixConfig_github c = None) \<and>
   (\<exists>c. model_validate (validate_BuildbotNixConfig pol vint vbool) (root_document ''gitea'') w =
          (Inr c, w) \<and>
        BuildbotNixConfig_auth_backend c = AuthBackendConfig_gitea \<and>
        BuildbotNixConfig_gitea c = None)"
    by (simp add: m model_validate_def validate_root_document [OF v gh]
        validate_root_document [OF v gt] root_config_def)
qed

theorem auth_backend_not_tied_to_forge_block_witness:
  "model_validate (validate_BuildbotNixConfig FirstMatch int_of_JInt bool_of_JBool)
       (root_document ''github'') fresh_world =
     (Inr (root_config AuthBackendConfig_github), fresh_world) \<and>
   BuildbotNixConfig_github (root_config AuthBackendConfig_github) = None \<and>
   model_validate (validate_BuildbotNixConfig FirstMatch int_of_JInt bool_of_JBool)
       (root_document ''gitea'') fresh_world =
     (Inr (root_config AuthBackendConfig_gitea), fresh_world) \<and>
   BuildbotNixConfig_gitea (root_config AuthBackendConfig_gitea) = None"
proof -
  have gh: "validate_AuthBackendConfig (JStr ''github'') = Some AuthBackendConfig_github"
    and gt: "validate_AuthBackendConfig (JStr ''gitea'') = Some AuthBackendConfig_gitea"
    by (simp_all add: validate_AuthBackendConfig_def)
  show ?thesis
    using auth_backend_not_tied_to_forge_block
      [of int_of_JInt bool_of_JBool FirstMatch fresh_world] JSON_scalars_accepted
    by (simp add: model_validate_def validate_root_document [OF JSON_scalars_accepted gh]
        validate_root_document [OF JSON_scalars_accepted gt] root_config_def)
qed

section \<open>Defaults\<close>




























section \<open>Secret files are read by the accessors only\<close>

text \<open>
  C8. Validating a document into any of the configuration models leaves the world as it
  was: no file is read. A read happens in an accessor, when it is called: each call reads
  the one file its reference names, once, and an accessor whose optional reference is unset
  reads nothing.
\<close>

theorem secret_files_read_on_access_only:
  "snd (model_validate validate_CachixConfig j w) = w \<and>
   snd (model_validate validate_GiteaConfig j w) = w \<and>
   snd (model_validate validate_GitHubLegacyConfig j w) = w \<and>
   snd (model_validate (validate_GitHubAppConfig vint) j w) = w \<and>
   snd (model_validate (validate_GitHubConfig pol vint) j w) = w \<and>
   snd (model_validate (validate_BuildbotNixConfig pol vint vbool) j w) = w \<and>
   snd (CachixConfig_signing_key c w) =
     (case CachixConfig_signing_key_file c of
        None \<Rightarrow> w | Some p \<Rightarrow> w\<lparr>reads := reads w @ [p]\<rparr>) \<and>
   snd (CachixConfig_auth_token c w) =
     (case CachixConfig_auth_token_file c of
        None \<Rightarrow> w | Some p \<Rightarrow> w\<lparr>reads := reads w @ [p]\<rparr>) \<and>
   snd (GiteaConfig_token g w) = w\<lparr>reads := reads w @ [GiteaConfig_token_file g]\<rparr> \<and>
   snd (GiteaConfig_webhook_secret g w) =
     w\<lparr>reads := reads w @ [GiteaConfig_webhook_secret_file g]\<rparr> \<and>
   snd (GiteaConfig_oauth_secret g w) =
     (case GiteaConfig_oauth_secret_file g of
        None \<Rightarrow> w | Some p \<Rightarrow> w\<lparr>reads := reads w @ [p]\<rparr>) \<and>
   snd (GitHubLegacyConfig_token l w) =
     w\<lparr>reads := reads w @ [GitHubLegacyConfig_token_file l]\<rparr> \<and>
   snd (GitHubAppConfig_secret_key a w) =
     w\<lparr>reads := reads w @ [GitHubAppConfig_secret_key_file a]\<rparr> \<and>
   snd (GitHubConfig_webhook_secret h w) =
     w\<lparr>reads := reads w @ [GitHubConfig_webhook_secret_file h]\<rparr> \<and>
   snd (GitHubConfig_oauth_secret h w) =
     (case GitHubConfig_oauth_secret_file h of
        None \<Rightarrow> w | Some p \<Rightarrow> w\<lparr>reads := reads w @ [p]\<rparr>) \<and>
   snd (BuildbotNixConfig_nix_workers_secret b w) =
     w\<lparr>reads := reads w @ [BuildbotNixConfig_nix_workers_secret_file b]\<rparr>"
  by (simp add: model_validate_def read_secret_file_def CachixConfig_signing_key_def
      CachixConfig_auth_token_def GiteaConfig_token_def GiteaConfig_webhook_secret_def
      GiteaConfig_oauth_secret_def GitHubLegacyConfig_token_def GitHubAppConfig_secret_key_def
      GitHubConfig_webhook_secret_def GitHubConfig_oauth_secret_def
      BuildbotNixConfig_nix_workers_secret_def split: option.splits)

end
